theory Spec2Isabelle
  imports Complex_Main "HOL-Library.Sublist" "HOL-Library.Word"
begin

section \<open>JavaScript values\<close>

text \<open>
  The client handles untyped JSON documents, so the model works on a datatype of JavaScript
  values. A number is an IEEE double: a finite value (kept exactly, as a rational; the two
  zeros are not told apart), NaN or an infinity. An object is the list of its own
  enumerable properties in insertion order.
\<close>

datatype jsnum = Finite rat | NaN | PosInf | NegInf

datatype jsval =
    JUndefined
  | JNull
  | JBool bool
  | JNum jsnum
  | JBigInt int
  | JStr string
  | JArr "jsval list"
  | JObj "(string \<times> jsval) list"

datatype error =
    TypeError string
  | Error string

text \<open>Truthiness (\<open>ToBoolean\<close>): the falsy values are \<open>undefined\<close>, \<open>null\<close>, \<open>false\<close>,
  \<open>0\<close>, \<open>NaN\<close>, \<open>0n\<close> and the empty string.\<close>

fun truthy :: "jsval \<Rightarrow> bool" where
  "truthy JUndefined = False"
| "truthy JNull = False"
| "truthy (JBool b) = b"
| "truthy (JNum (Finite r)) = (r \<noteq> 0)"
| "truthy (JNum NaN) = False"
| "truthy (JNum PosInf) = True"
| "truthy (JNum NegInf) = True"
| "truthy (JBigInt n) = (n \<noteq> 0)"
| "truthy (JStr s) = (s \<noteq> [])"
| "truthy (JArr xs) = True"
| "truthy (JObj kvs) = True"

text \<open>\<open>nullish v\<close>: the values on which \<open>??\<close> takes its right operand and \<open>?.\<close> stops.\<close>

fun nullish :: "jsval \<Rightarrow> bool" where
  "nullish JUndefined = True"
| "nullish JNull = True"
| "nullish v = False"

text \<open>
  Property read \<open>v.k\<close> for the keys the code reads (\<open>$oid\<close>, \<open>message\<close>, \<open>ID\<close>, ...), none
  of which is a prototype property: an object gives its own property or \<open>undefined\<close>, any
  other non-nullish value gives \<open>undefined\<close>, and reading from \<open>undefined\<close> or \<open>null\<close>
  throws a TypeError.
\<close>

fun own_prop :: "jsval \<Rightarrow> string \<Rightarrow> jsval" where
  "own_prop (JObj kvs) k = (case map_of kvs k of None \<Rightarrow> JUndefined | Some v \<Rightarrow> v)"
| "own_prop v k = JUndefined"

definition get_prop :: "jsval \<Rightarrow> string \<Rightarrow> error + jsval" where
  "get_prop v k =
     (if nullish v then Inl (TypeError ''Cannot read properties of undefined or null'')
      else Inr (own_prop v k))"

text \<open>Optional chaining \<open>v?.k\<close>.\<close>

definition opt_prop :: "jsval \<Rightarrow> string \<Rightarrow> jsval" where
  "opt_prop v k = (if nullish v then JUndefined else own_prop v k)"


section \<open>Namespaces of a database (\<open>src/devops/astra-db-admin.ts\<close>)\<close>

text \<open>
  The record the DevOps API returns for a database: \<open>id\<close>, \<open>status\<close> and an \<open>info\<close>
  sub-record (field \<open>db_info\<close> here). The type is \<open>FullDatabaseInfo\<close> of \<open>src/devops/types\<close>;
  the fields are the ones \<open>listNamespaces\<close> and the lifecycle test read. \<open>keyspace\<close> is optional
  (\<open>JUndefined\<close> when absent), and \<open>additionalKeyspaces\<close> is \<open>None\<close> when it is
  \<open>undefined\<close> or \<open>null\<close>, the two values the \<open>??\<close> of the source replaces by \<open>[]\<close>.
\<close>

record DatabaseInfo =
  info_name :: string
  cloudProvider :: string
  region :: string
  keyspace :: jsval
  additionalKeyspaces :: "jsval list option"

record FullDatabaseInfo =
  db_id :: string
  db_status :: string
  db_info :: DatabaseInfo

text \<open>
  \<^verbatim>\<open>this.info().then(i => [i.info.keyspace!, ...i.info.additionalKeyspaces ?? []].filter(Boolean))\<close>:
  the function applied to the fetched record.
\<close>

definition listNamespaces :: "FullDatabaseInfo \<Rightarrow> jsval list" where
  "listNamespaces i =
     filter truthy
       (keyspace (db_info i) #
        (case additionalKeyspaces (db_info i) of None \<Rightarrow> [] | Some ks \<Rightarrow> ks))"


section \<open>DevOps API errors (\<open>src/devops/errors.ts\<close>)\<close>

record GuaranteedAPIResponse =
  resp_status :: int
  resp_data :: jsval

record DevOpsAPIErrorDescriptor =
  desc_id :: jsval
  desc_message :: jsval

record DevOpsAPIResponseError =
  err_message :: string
  err_errors :: "DevOpsAPIErrorDescriptor list"
  err_status :: int
  err_name :: string

text \<open>Running a fallible function over a list, left to right, stopping at the first throw.\<close>

fun map_result :: "('a \<Rightarrow> error + 'b) \<Rightarrow> 'a list \<Rightarrow> error + 'b list" where
  "map_result f [] = Inr []"
| "map_result f (x # xs) =
     (case f x of
        Inl e \<Rightarrow> Inl e
      | Inr y \<Rightarrow> (case map_result f xs of Inl e \<Rightarrow> Inl e | Inr ys \<Rightarrow> Inr (y # ys)))"

text \<open>
  \<open>errors.map(e => ({ id: e.ID, message: e.message }))\<close>; reading a property of a
  \<open>null\<close> or \<open>undefined\<close> entry throws.
\<close>

definition mk_descriptor :: "jsval \<Rightarrow> error + DevOpsAPIErrorDescriptor" where
  "mk_descriptor e =
     (case get_prop e ''ID'' of
        Inl x \<Rightarrow> Inl x
      | Inr i \<Rightarrow>
          (case get_prop e ''message'' of
             Inl x \<Rightarrow> Inl x
           | Inr m \<Rightarrow> Inr \<lparr>desc_id = i, desc_message = m\<rparr>))"

text \<open>
  \<open>const errors: any[] = resp.data?.errors || []\<close>, then \<open>errors.map\<close>. A truthy
  \<open>errors\<close> that is not an array has no \<open>map\<close> method.
\<close>

definition extractErrorDescriptors ::
    "GuaranteedAPIResponse \<Rightarrow> error + DevOpsAPIErrorDescriptor list" where
  "extractErrorDescriptors resp =
     (let errors = opt_prop (resp_data resp) ''errors'' in
      if \<not> truthy errors then Inr []
      else (case errors of
              JArr es \<Rightarrow> map_result mk_descriptor es
            | _ \<Rightarrow> Inl (TypeError ''errors.map is not a function'')))"

text \<open>
  \<open>Array.prototype.find\<close> with the predicate \<open>e => e.message\<close>: the first entry whose
  \<open>message\<close> is truthy, \<open>undefined\<close> when there is none.
\<close>

fun find_message :: "jsval list \<Rightarrow> error + jsval" where
  "find_message [] = Inr JUndefined"
| "find_message (e # es) =
     (case get_prop e ''message'' of
        Inl x \<Rightarrow> Inl x
      | Inr m \<Rightarrow> if truthy m then Inr e else find_message es)"

text \<open>
  The constructor of \<open>DevOpsAPIResponseError\<close>. \<open>to_string\<close> stands for the conversion
  \<open>ToString\<close> that \<open>Error\<close> applies to a message that is not a string already.
  \<^verbatim>\<open>
  const message = (resp.data?.errors as any[])?.find(e => e.message)?.message ?? 'Something went wrong';
  super(message);
  this.errors = extractErrorDescriptors(resp);
  this.status = resp.status;
  this.name = 'DevOpsAPIResponseError';
  \<close>
\<close>

definition error_message :: "(jsval \<Rightarrow> string) \<Rightarrow> jsval \<Rightarrow> string" where
  "error_message to_string m = (case m of JStr s \<Rightarrow> s | _ \<Rightarrow> to_string m)"

definition surfaced_message :: "GuaranteedAPIResponse \<Rightarrow> error + jsval" where
  "surfaced_message resp =
     (let errors = opt_prop (resp_data resp) ''errors'' in
      if nullish errors then Inr (JStr ''Something went wrong'')
      else (case errors of
              JArr es \<Rightarrow>
                (case find_message es of
                   Inl x \<Rightarrow> Inl x
                 | Inr found \<Rightarrow>
                     (let m = opt_prop found ''message'' in
                      Inr (if nullish m then JStr ''Something went wrong'' else m)))
            | _ \<Rightarrow> Inl (TypeError ''find is not a function'')))"

definition new_DevOpsAPIResponseError ::
    "(jsval \<Rightarrow> string) \<Rightarrow> GuaranteedAPIResponse \<Rightarrow> error + DevOpsAPIResponseError" where
  "new_DevOpsAPIResponseError to_string resp =
     (case surfaced_message resp of
        Inl x \<Rightarrow> Inl x
      | Inr message \<Rightarrow>
          (case extractErrorDescriptors resp of
             Inl x \<Rightarrow> Inl x
           | Inr ds \<Rightarrow>
               Inr \<lparr>err_message = error_message to_string message,
                    err_errors = ds,
                    err_status = resp_status resp,
                    err_name = ''DevOpsAPIResponseError''\<rparr>))"


section \<open>The command codec (\<open>src/api/http-client.ts\<close>)\<close>

text \<open>
  \<open>serializeCommand\<close> calls \<open>EJSON.stringify(data, replacer, indent)\<close> with
  \<open>handleValues\<close> as the replacer. \<open>EJSON.stringify\<close> works in two passes: the \<open>bson\<close>
  library first rewrites the document (its own classes into their extended-JSON objects
  \<open>{$oid}\<close>, \<open>{$binary: {base64, subType}}\<close>, \<open>{$numberDecimal}\<close>, \<open>{$date}\<close>, a bigint
  into a number, \<open>undefined\<close> into \<open>null\<close>), and then runs \<open>JSON.stringify\<close> with the
  replacer on what the first pass returned. The replacer and the walk of
  \<open>JSON.stringify\<close> come first below, then the pass of \<open>bson\<close> and \<open>serializeCommand\<close>.

  The built-ins \<open>handleValues\<close> calls are parameters:
  \<^item> \<open>Buffer_from v\<close> is \<open>Buffer.from(v, "base64")\<close>, the decoded bytes or a TypeError;
  \<^item> \<open>Number_builtin v\<close> is \<open>Number(v)\<close> for a \<open>v\<close> that is neither a number nor a bigint;
  \<^item> \<open>Date_valueOf v\<close> is \<open>new Date(v).valueOf()\<close>, which throws on a bigint.
\<close>

record builtins =
  Buffer_from :: "jsval \<Rightarrow> error + 8 word list"
  Number_builtin :: "jsval \<Rightarrow> jsnum"
  Date_valueOf :: "jsval \<Rightarrow> error + jsnum"

subsection \<open>\<open>Number\<close> of a bigint\<close>

text \<open>
  \<open>Number(n)\<close> for a bigint \<open>n\<close> is the double nearest to \<open>n\<close>, ties to the even
  significand, and an infinity from \<open>2^1024\<close> on. A double has a significand of 53 bits:
  an integer of \<open>53 + e\<close> bits keeps its top 53 bits, rounded.
\<close>

function bit_length :: "int \<Rightarrow> nat" where
  "bit_length n = (if n \<le> 0 then 0 else Suc (bit_length (n div 2)))"
  by pat_completeness auto
termination
  by (relation "measure nat") auto

declare bit_length.simps [simp del]

definition round_to_double :: "int \<Rightarrow> int" where
  "round_to_double n =
     (let a = \<bar>n\<bar>;
          e = bit_length a - 53;
          q = a div 2 ^ e;
          r = a mod 2 ^ e;
          q' = (if 2 ^ e < 2 * r \<or> (2 * r = 2 ^ e \<and> odd q) then q + 1 else q)
      in sgn n * q' * 2 ^ e)"

definition Number_of_bigint :: "int \<Rightarrow> jsnum" where
  "Number_of_bigint n =
     (let m = round_to_double n
      in if 2 ^ 1024 \<le> m then PosInf
         else if m \<le> - (2 ^ 1024) then NegInf
         else Finite (of_int m))"

definition Number_js :: "builtins \<Rightarrow> jsval \<Rightarrow> jsnum" where
  "Number_js rt v =
     (case v of
        JBigInt n \<Rightarrow> Number_of_bigint n
      | JNum x \<Rightarrow> x
      | _ \<Rightarrow> Number_builtin rt v)"

subsection \<open>Hexadecimal text and the UUID pattern\<close>

text \<open>\<open>buf.toString("hex")\<close>: two lowercase digits for each byte.\<close>

definition hex_digits :: string where
  "hex_digits = ''0123456789abcdef''"

definition hex_digit :: "nat \<Rightarrow> char" where
  "hex_digit d = hex_digits ! d"

definition hex_of_byte :: "8 word \<Rightarrow> string" where
  "hex_of_byte b = [hex_digit (unat b div 16), hex_digit (unat b mod 16)]"

definition to_hex :: "8 word list \<Rightarrow> string" where
  "to_hex bs = concat (map hex_of_byte bs)"

text \<open>
  \<^verbatim>\<open>.replace(/(.{8})(.{4})(.{4})(.{4})(.{12})/, "$1-$2-$3-$4-$5")\<close>: the first place where
  32 characters follow each other, none of them a line terminator (the dot does not match
  one), is rewritten with hyphens after 8, 12, 16 and 20 characters; a string with no such
  place is left as it is. Of the line terminators, only line feed and carriage return
  exist in \<^typ>\<open>char\<close>.
\<close>

definition line_terminator :: "char \<Rightarrow> bool" where
  "line_terminator c = (c = CHR 0x0A \<or> c = CHR 0x0D)"

definition hyphenate :: "string \<Rightarrow> string" where
  "hyphenate s =
     take 8 s @ ''-'' @ take 4 (drop 8 s) @ ''-'' @ take 4 (drop 12 s) @ ''-'' @
     take 4 (drop 16 s) @ ''-'' @ take 12 (drop 20 s) @ drop 32 s"

fun replace_uuid :: "string \<Rightarrow> string" where
  "replace_uuid s =
     (if 32 \<le> length s \<and> \<not> list_ex line_terminator (take 32 s) then hyphenate s
      else (case s of [] \<Rightarrow> [] | c # cs \<Rightarrow> c # replace_uuid cs))"

declare replace_uuid.simps [simp del]

subsection \<open>\<open>handleValues\<close>\<close>

text \<open>\<open>typeof value === "object"\<close> holds of objects and arrays (and of \<open>null\<close>, which is
  falsy); \<open>value.$date = x\<close> overwrites the property where it stands.\<close>

fun is_object :: "jsval \<Rightarrow> bool" where
  "is_object (JObj kvs) = True"
| "is_object (JArr xs) = True"
| "is_object v = False"

fun is_bigint :: "jsval \<Rightarrow> bool" where
  "is_bigint (JBigInt n) = True"
| "is_bigint v = False"

fun assign :: "(string \<times> jsval) list \<Rightarrow> string \<Rightarrow> jsval \<Rightarrow> (string \<times> jsval) list" where
  "assign [] k x = [(k, x)]"
| "assign ((k', y) # kvs) k x = (if k' = k then (k, x) # kvs else (k', y) # assign kvs k x)"

fun set_prop :: "jsval \<Rightarrow> string \<Rightarrow> jsval \<Rightarrow> jsval" where
  "set_prop (JObj kvs) k x = JObj (assign kvs k x)"
| "set_prop v k x = v"

text \<open>
  \<^verbatim>\<open>
  function handleValues(value: any): any {
    if (value && typeof value === "bigint") {
      return Number(value);
    } else if (value && typeof value === "object") {
      if (value.$oid) {
        return value.$oid;
      } else if (value.$numberDecimal) {
        return Number(value.$numberDecimal);
      } else if (value.$binary?.subType === "03" || value.$binary?.subType === "04") {
        return Buffer.from(value.$binary.base64, "base64")
          .toString("hex")
          .replace(/(.{8})(.{4})(.{4})(.{4})(.{12})/, "$1-$2-$3-$4-$5");
      }
      else if (value.$date) {
        value.$date = new Date(value.$date).valueOf();
      }
    }
    return value;
  }
  \<close>
\<close>

definition handleValues :: "builtins \<Rightarrow> jsval \<Rightarrow> error + jsval" where
  "handleValues rt v =
     (if truthy v \<and> is_bigint v then Inr (JNum (Number_js rt v))
      else if truthy v \<and> is_object v then
        (if truthy (own_prop v ''$oid'') then Inr (own_prop v ''$oid'')
         else if truthy (own_prop v ''$numberDecimal'') then
           Inr (JNum (Number_js rt (own_prop v ''$numberDecimal'')))
         else if opt_prop (own_prop v ''$binary'') ''subType'' = JStr ''03''
               \<or> opt_prop (own_prop v ''$binary'') ''subType'' = JStr ''04'' then
           (case Buffer_from rt (own_prop (own_prop v ''$binary'') ''base64'') of
              Inl e \<Rightarrow> Inl e
            | Inr bytes \<Rightarrow> Inr (JStr (replace_uuid (to_hex bytes))))
         else if truthy (own_prop v ''$date'') then
           (case Date_valueOf rt (own_prop v ''$date'') of
              Inl e \<Rightarrow> Inl e
            | Inr ms \<Rightarrow> Inr (set_prop v ''$date'' (JNum ms)))
         else Inr v)
      else Inr v)"

subsection \<open>\<open>JSON.stringify\<close> with a replacer\<close>







subsection \<open>The extended-JSON pass of \<open>bson\<close>\<close>

text \<open>
  \<open>EJSON.stringify(value, replacer, space)\<close> of the \<open>bson\<close> library (version 5 and later,
  where it accepts bigints) is
  \<^verbatim>\<open>
  const doc = serializeValue(value, { relaxed: true, legacy: false, ... });
  return JSON.stringify(doc, replacer, space);
  \<close>
  so the replacer sees the document only after \<open>serializeValue\<close> has rewritten it. On the
  values of \<^typ>\<open>jsval\<close>, in relaxed mode:
  \<^verbatim>\<open>
  if (Array.isArray(value)) return serializeArray(value, options);
  if (value === undefined) return null;
  if (typeof value === 'number' && (!options.relaxed || !isFinite(value))) {
    ... return { $numberDouble: Object.is(value, -0) ? '-0.0' : value.toString() };
  }
  if (typeof value === 'bigint') {
    if (!options.relaxed) { ... }
    return Number(BigInt.asIntN(64, value));
  }
  if (value != null && typeof value === 'object') return serializeDocument(value, options);
  return value;
  \<close>
  \<open>serializeDocument\<close> copies a regular object (one whose \<open>_bsontype\<close> is \<open>undefined\<close>)
  property by property, each value through \<open>serializeValue\<close>; an object that carries a
  \<open>_bsontype\<close> without being an instance of a class of the library is refused (the
  messages of the two errors are shortened here). The
  instances of those classes and of \<open>Date\<close> are not values of \<^typ>\<open>jsval\<close>: they enter the
  model as the objects this pass makes of them (\<open>{$binary: {base64, subType}}\<close>,
  \<open>{$numberDecimal}\<close>, \<open>{$date}\<close>, \<open>{$oid}\<close>), which the pass leaves as they are.
\<close>



subsection \<open>\<open>serializeCommand\<close>\<close>




subsection \<open>Supported values and what can be observed of them\<close>









section \<open>The HTTP/2 strategy (\<open>src/api/http2.ts\<close>)\<close>

text \<open>
  A strategy holds a reference to one \<open>http2\<close> session. Sessions are objects of the Node
  runtime that the peer can close behind the strategy's back, so they live in a store,
  the \<open>world\<close>, and the strategy holds a handle. \<open>http2.connect\<close> allocates the next
  handle.
\<close>

record ClientHttp2Session =
  authority :: string
  s_closed :: bool
  session_listeners :: "string list"

record world =
  sessions :: "nat \<Rightarrow> ClientHttp2Session"
  allocated :: nat

record HTTP2Strategy =
  origin :: string
  closed :: bool
  session :: "nat option"

text \<open>
  The request the client hands to the strategy (\<open>InternalHTTPRequestInfo\<close>; the
  type is declared in \<open>src/api/types\<close>, the fields are the ones \<open>HttpClient._request\<close>
  and \<open>HTTP2Strategy.request\<close> use, \<open>method\<close> under the name \<open>req_method\<close>).
  \<open>serializer\<close> can throw.
\<close>

record InternalHTTPRequestInfo =
  url :: string
  data :: jsval
  timeout :: nat
  req_method :: string
  params :: "(string \<times> string) list option"
  token :: string
  userAgent :: string
  serializer :: "jsval \<Rightarrow> error + string"

record InternalAPIResponse =
  api_status :: int
  api_data :: jsval

text \<open>What a promise is rejected with: the \<open>DataAPITimeout\<close> of the timer (the request
  body and the timeout), an \<open>Error\<close> with a message, the payload of the stream's \<open>error\<close>
  event, or an exception thrown inside the executor.\<close>

datatype rejection =
    DataAPITimeout jsval nat
  | PlainError string
  | StreamError string
  | Thrown error

datatype outcome = Pending | Resolved InternalAPIResponse | Rejected rejection

text \<open>A promise settles once: \<open>resolve\<close> and \<open>reject\<close> do nothing to a settled promise.\<close>

fun resolve :: "InternalAPIResponse \<Rightarrow> outcome \<Rightarrow> outcome" where
  "resolve r Pending = Resolved r"
| "resolve r p = p"

fun reject :: "rejection \<Rightarrow> outcome \<Rightarrow> outcome" where
  "reject e Pending = Rejected e"
| "reject e p = p"

datatype timer_state = Unset | Armed nat | Cleared | Fired

text \<open>\<open>clearTimeout\<close> cancels a timer that has not fired and is a no-op otherwise.\<close>

fun clearTimeout :: "timer_state \<Rightarrow> timer_state" where
  "clearTimeout (Armed ms) = Cleared"
| "clearTimeout t = t"

text \<open>The stream \<open>session.request\<close> returns: the session it runs on, what was sent on
  it, and the events the code listens to.\<close>

record ClientHttp2Stream =
  on_session :: nat
  sent_headers :: "(string \<times> string) list"
  sent_body :: "string list"
  ended :: bool
  listeners :: "string list"

text \<open>The state of one call of \<open>request\<close>: the promise it returned, its timer, the
  local variables \<open>status\<close> and \<open>responseBody\<close>, and the stream \<open>req\<close>.\<close>

record call =
  promise :: outcome
  timer :: timer_state
  status :: int
  responseBody :: string
  req :: "ClientHttp2Stream option"

text \<open>The built-ins: \<open>new URL(u).origin\<close> (which throws on a malformed URL),
  \<open>new URLSearchParams(ps).toString()\<close> and \<open>JSON.parse\<close> (\<open>None\<close> when it throws).\<close>

record http_builtins =
  URL_origin :: "string \<Rightarrow> string option"
  URLSearchParams_toString :: "(string \<times> string) list \<Rightarrow> string"
  JSON_parse :: "string \<Rightarrow> jsval option"

subsection \<open>Sessions\<close>

text \<open>
  \<^verbatim>\<open>
  private _reviveSession() {
    if (this.session && !this.session.closed) {
      return this.session;
    }
    const session = http2.connect(this.origin);
    session.on('error', () => {});
    session.on('socketError', () => {});
    return session;
  }
  \<close>
\<close>

definition connect :: "world \<Rightarrow> string \<Rightarrow> world \<times> nat" where
  "connect w auth =
     (w\<lparr>sessions := (sessions w)(allocated w :=
           \<lparr>authority = auth, s_closed = False, session_listeners = []\<rparr>),
        allocated := Suc (allocated w)\<rparr>,
      allocated w)"

definition session_on :: "world \<Rightarrow> nat \<Rightarrow> string \<Rightarrow> world" where
  "session_on w h ev =
     w\<lparr>sessions := (sessions w)(h :=
          (sessions w h)\<lparr>session_listeners := session_listeners (sessions w h) @ [ev]\<rparr>)\<rparr>"

definition reviveSession :: "world \<Rightarrow> HTTP2Strategy \<Rightarrow> world \<times> nat" where
  "reviveSession w this =
     (case session this of
        Some h \<Rightarrow>
          if \<not> s_closed (sessions w h) then (w, h)
          else (let (w1, h1) = connect w (origin this)
                in (session_on (session_on w1 h1 ''error'') h1 ''socketError'', h1))
      | None \<Rightarrow>
          (let (w1, h1) = connect w (origin this)
           in (session_on (session_on w1 h1 ''error'') h1 ''socketError'', h1)))"

text \<open>
  \<^verbatim>\<open>
  constructor(baseURL: string) {
    this.origin = new URL(baseURL).origin;
    this.session = this._reviveSession();
  }
  \<close>
\<close>

definition new_HTTP2Strategy ::
    "http_builtins \<Rightarrow> world \<Rightarrow> string \<Rightarrow> error + world \<times> HTTP2Strategy" where
  "new_HTTP2Strategy rt w baseURL =
     (case URL_origin rt baseURL of
        None \<Rightarrow> Inl (TypeError ''Invalid URL'')
      | Some orig \<Rightarrow>
          (let this = \<lparr>origin = orig, closed = False, session = None\<rparr>;
               (w1, h) = reviveSession w this
           in Inr (w1, this\<lparr>session := Some h\<rparr>)))"

text \<open>
  \<^verbatim>\<open>
  close() {
    this.session.close();
    this.closed = true;
  }
  \<close>
  \<open>session.close()\<close> marks the session closed.
\<close>

definition close :: "world \<Rightarrow> HTTP2Strategy \<Rightarrow> error + world \<times> HTTP2Strategy" where
  "close w this =
     (case session this of
        None \<Rightarrow> Inl (TypeError ''Cannot read properties of undefined'')
      | Some h \<Rightarrow>
          Inr (w\<lparr>sessions := (sessions w)(h := (sessions w h)\<lparr>s_closed := True\<rparr>)\<rparr>,
               this\<lparr>closed := True\<rparr>))"

subsection \<open>\<open>request\<close>: the executor\<close>

text \<open>\<open>s.replace(p, '')\<close> with a string pattern removes the first occurrence of \<open>p\<close>.\<close>

fun remove_first :: "string \<Rightarrow> string \<Rightarrow> string" where
  "remove_first p [] = []"
| "remove_first p (c # cs) =
     (if prefix p (c # cs) then drop (length p) (c # cs) else c # remove_first p cs)"

text \<open>
  The body of \<open>new Promise((resolve, reject) => ...)\<close> runs at once; an exception thrown
  in it rejects the promise. It returns the state of the call with the stream and the
  listeners in place; the events come later.
  \<^verbatim>\<open>
  if (this.closed) {
    throw new Error('Cannot make http2 request when client is closed');
  }
  if (this.session.closed) {
    this.session = this._reviveSession();
  }
  const timer = setTimeout(() => reject(new DataAPITimeout(info.data, info.timeout)), info.timeout);
  const path = info.url.replace(this.origin, '');
  const params = info.params ? `?${new URLSearchParams(info.params).toString()}` : '';
  const req = this.session.request({
    ':path': path + params, ':method': info.method, token: info.token, 'User-Agent': info.userAgent,
  });
  if (info.data) {
    req.write(info.serializer(info.data), 'utf8');
  }
  req.end();
  let status = 0;
  req.on('response', ...); req.on('error', ...);
  req.setEncoding('utf8');
  let responseBody = '';
  req.on('data', ...); req.on('end', ...);
  \<close>
\<close>

definition thrown :: "rejection \<Rightarrow> timer_state \<Rightarrow> ClientHttp2Stream option \<Rightarrow> call" where
  "thrown e t s = \<lparr>promise = Rejected e, timer = t, status = 0, responseBody = [], req = s\<rparr>"

definition request ::
    "http_builtins \<Rightarrow> world \<Rightarrow> HTTP2Strategy \<Rightarrow> InternalHTTPRequestInfo
       \<Rightarrow> (world \<times> HTTP2Strategy) \<times> call" where
  "request rt w this info =
     (if closed this then
        ((w, this), thrown (PlainError ''Cannot make http2 request when client is closed'') Unset None)
      else
        (case session this of
           None \<Rightarrow> ((w, this), thrown (Thrown (TypeError ''Cannot read properties of undefined'')) Unset None)
         | Some h0 \<Rightarrow>
             (let (w1, h) = (if s_closed (sessions w h0) then reviveSession w this else (w, h0));
                  this1 = this\<lparr>session := Some h\<rparr>;
                  timer0 = Armed (timeout info);
                  path = remove_first (origin this1) (url info);
                  ps = (case params info of
                          None \<Rightarrow> []
                        | Some q \<Rightarrow> ''?'' @ URLSearchParams_toString rt q);
                  stream = \<lparr>on_session = h,
                            sent_headers = [('':path'', path @ ps), ('':method'', req_method info),
                                            (''token'', token info), (''User-Agent'', userAgent info)],
                            sent_body = [], ended = False, listeners = []\<rparr>
              in if truthy (data info) then
                   (case serializer info (data info) of
                      Inl e \<Rightarrow> ((w1, this1), thrown (Thrown e) timer0 (Some stream))
                    | Inr text \<Rightarrow>
                        ((w1, this1),
                         \<lparr>promise = Pending, timer = timer0, status = 0, responseBody = [],
                          req = Some (stream\<lparr>sent_body := [text], ended := True,
                                       listeners := [''response'', ''error'', ''data'', ''end'']\<rparr>)\<rparr>))
                 else
                   ((w1, this1),
                    \<lparr>promise = Pending, timer = timer0, status = 0, responseBody = [],
                     req = Some (stream\<lparr>ended := True,
                                  listeners := [''response'', ''error'', ''data'', ''end'']\<rparr>)\<rparr>))))"

subsection \<open>\<open>request\<close>: the callbacks\<close>

text \<open>
  What happens to a call afterwards: its timer fires, or the stream emits \<open>response\<close>
  (with the \<open>:status\<close> header, if any), \<open>error\<close>, \<open>data\<close> or \<open>end\<close>. A timer runs its
  callback only while it is armed; a stream event runs the handler registered for it.
  \<^verbatim>\<open>
  setTimeout(() => reject(new DataAPITimeout(info.data, info.timeout)), info.timeout)
  req.on('response', (data) => { clearTimeout(timer); status = data[':status'] ?? 0; });
  req.on('error', (error: Error) => { clearTimeout(timer); reject(error); });
  req.on('data', (chunk: string) => { responseBody += chunk; });
  req.on('end', () => {
    clearTimeout(timer);
    try {
      const data = JSON.parse(responseBody);
      resolve({ status, data });
    } catch (error) {
      reject(new Error('Unable to parse response as JSON, got: "' + responseBody + '"'));
    }
  });
  \<close>
\<close>

datatype event =
    TimerFires
  | OnResponse "int option"
  | OnError string
  | OnData string
  | OnEnd

definition listening :: "call \<Rightarrow> string \<Rightarrow> bool" where
  "listening c ev = (case req c of None \<Rightarrow> False | Some s \<Rightarrow> ev \<in> set (listeners s))"

definition parse_failure :: "string \<Rightarrow> rejection" where
  "parse_failure body =
     PlainError (''Unable to parse response as JSON, got: '' @ [CHR 0x22] @ body @ [CHR 0x22])"

fun deliver :: "http_builtins \<Rightarrow> InternalHTTPRequestInfo \<Rightarrow> call \<Rightarrow> event \<Rightarrow> call" where
  "deliver rt info c TimerFires =
     (case timer c of
        Armed ms \<Rightarrow>
          c\<lparr>timer := Fired,
            promise := reject (DataAPITimeout (data info) (timeout info)) (promise c)\<rparr>
      | _ \<Rightarrow> c)"
| "deliver rt info c (OnResponse st) =
     (if listening c ''response'' then
        c\<lparr>timer := clearTimeout (timer c), status := (case st of None \<Rightarrow> 0 | Some n \<Rightarrow> n)\<rparr>
      else c)"
| "deliver rt info c (OnError e) =
     (if listening c ''error'' then
        c\<lparr>timer := clearTimeout (timer c), promise := reject (StreamError e) (promise c)\<rparr>
      else c)"
| "deliver rt info c (OnData chunk) =
     (if listening c ''data'' then c\<lparr>responseBody := responseBody c @ chunk\<rparr> else c)"
| "deliver rt info c OnEnd =
     (if listening c ''end'' then
        (case JSON_parse rt (responseBody c) of
           Some d \<Rightarrow>
             c\<lparr>timer := clearTimeout (timer c),
               promise := resolve \<lparr>api_status = status c, api_data = d\<rparr> (promise c)\<rparr>
         | None \<Rightarrow>
             c\<lparr>timer := clearTimeout (timer c),
               promise := reject (parse_failure (responseBody c)) (promise c)\<rparr>)
      else c)"

text \<open>A run of the call: the events in the order in which they happen.\<close>

definition run :: "http_builtins \<Rightarrow> InternalHTTPRequestInfo \<Rightarrow> call \<Rightarrow> event list \<Rightarrow> call" where
  "run rt info c evs = foldl (deliver rt info) c evs"


subsection \<open>The life of a strategy\<close>

text \<open>
  What can happen to a strategy between two observations: the client calls \<open>request\<close>
  or \<open>close\<close>, or the peer closes a session (a GOAWAY frame, an idle timeout).
\<close>

datatype action =
    CallRequest InternalHTTPRequestInfo
  | CallClose
  | PeerCloses nat

fun perform :: "http_builtins \<Rightarrow> world \<times> HTTP2Strategy \<Rightarrow> action \<Rightarrow> world \<times> HTTP2Strategy" where
  "perform rt (w, this) (CallRequest info) = fst (request rt w this info)"
| "perform rt (w, this) CallClose =
     (case close w this of Inl e \<Rightarrow> (w, this) | Inr r \<Rightarrow> r)"
| "perform rt (w, this) (PeerCloses h) =
     (w\<lparr>sessions := (sessions w)(h := (sessions w h)\<lparr>s_closed := True\<rparr>)\<rparr>, this)"

subsection \<open>A sample exchange\<close>

text \<open>A runtime, a request and a freshly constructed strategy for the examples. The
  sample \<open>JSON.parse\<close> knows the texts \<open>{}\<close> and \<open>{"ok":1}\<close> only and throws on the rest,
  the empty text included.\<close>

definition sample_builtins :: http_builtins where
  "sample_builtins =
     \<lparr>URL_origin = (\<lambda>u. Some (take 18 u)),
      URLSearchParams_toString = (\<lambda>ps. []),
      JSON_parse = (\<lambda>s. if s = ''{}'' then Some (JObj [])
                          else if s = ''{'' @ [CHR 0x22] @ ''ok'' @ [CHR 0x22] @ '':1}''
                          then Some (JObj [(''ok'', JNum (Finite 1))])
                          else None)\<rparr>"

definition sample_info :: InternalHTTPRequestInfo where
  "sample_info =
     \<lparr>url = ''https://db.example/api/json/v1'',
      data = JObj [(''findOne'', JObj [])],
      timeout = 30000,
      req_method = ''POST'',
      params = Some [],
      token = ''AstraCS:token'',
      userAgent = ''astra-db-ts/1.0'',
      serializer = (\<lambda>v. Inr ''{}'')\<rparr>"

definition empty_world :: world where
  "empty_world =
     \<lparr>sessions = (\<lambda>h. \<lparr>authority = [], s_closed = True, session_listeners = []\<rparr>),
      allocated = 0\<rparr>"

definition sample_world :: world where
  "sample_world =
     \<lparr>sessions = (sessions empty_world)(0 :=
         \<lparr>authority = ''https://db.example'', s_closed = False,
          session_listeners = [''error'', ''socketError'']\<rparr>),
      allocated = 1\<rparr>"

definition sample_strategy :: HTTP2Strategy where
  "sample_strategy = \<lparr>origin = ''https://db.example'', closed = False, session = Some 0\<rparr>"

subsection \<open>Invariants of a call\<close>

text \<open>
  Three predicates the proofs about a call rest on: a timer that is still armed belongs
  to a pending promise; a resolved promise holds the result of a successful
  \<open>JSON.parse\<close>; and two calls that differ in their stream only (the session, what was
  sent) stay alike under the same events.
\<close>

definition armed_pending :: "call \<Rightarrow> bool" where
  "armed_pending c = (case timer c of Armed ms \<Rightarrow> promise c = Pending | _ \<Rightarrow> True)"

definition parsed_result :: "http_builtins \<Rightarrow> call \<Rightarrow> bool" where
  "parsed_result rt c =
     (case promise c of
        Resolved r \<Rightarrow> (\<exists>body. JSON_parse rt body = Some (api_data r))
      | _ \<Rightarrow> True)"



section \<open>Administrative operations (\<open>AstraAdmin\<close>, \<open>AstraDbAdmin\<close>)\<close>

text \<open>
  An administrative operation is a sequence of calls on its DevOps HTTP client: plain
  requests and calls of the status poller \<open>awaitStatus(db, target, legalStates, options,
  defaultPollInterval)\<close>. An operation is modelled by the calls it
  makes on the client, in order, when each of them succeeds. A database is
  known by its id; the blocking options are \<open>None\<close> when the caller gives none.
\<close>

datatype http_method = Get | Post | Delete

record AdminBlockingOptions =
  blocking :: "bool option"
  pollInterval :: "nat option"

datatype client_call =
    Request http_method string jsval
  | AwaitStatus string string "string list" "AdminBlockingOptions option" nat

text \<open>The default keyspace of a new database (\<open>DEFAULT_NAMESPACE\<close>; the lifecycle test
  expects \<open>default_keyspace\<close> of a database created without a namespace).\<close>

definition DEFAULT_NAMESPACE :: string where
  "DEFAULT_NAMESPACE = ''default_keyspace''"

text \<open>Object spread \<open>{...a, ...b}\<close>: the properties of \<open>b\<close> are assigned over those of \<open>a\<close>.\<close>

definition spread :: "(string \<times> jsval) list \<Rightarrow> (string \<times> jsval) list \<Rightarrow> (string \<times> jsval) list" where
  "spread a b = foldl (\<lambda>acc (k, x). assign acc k x) a b"

text \<open>
  \<^verbatim>\<open>
  public async createDatabase(config: DatabaseConfig, options?: CreateDatabaseOptions) {
    const definition = {
      capacityUnits: 1, tier: 'serverless', dbType: 'vector',
      keyspace: config.namespace || DEFAULT_NAMESPACE,
      ...config,
    }
    const resp = await this._httpClient.request({
      method: HTTP_METHODS.Post, path: '/databases', data: definition,
    });
    const db = mkDb(this.#defaultOpts, resp.headers.location, definition.region, ...);
    const admin = db.admin(this.#defaultOpts.adminOptions);
    await this._httpClient.awaitStatus(db, 'ACTIVE', ['INITIALIZING', 'PENDING'], options, 10000);
    return admin;
  }
  \<close>
  \<open>config\<close> is the list of the properties of the configuration object, and \<open>location\<close>
  the \<open>location\<close> header of the response, the id of the new database.
\<close>

definition database_definition :: "(string \<times> jsval) list \<Rightarrow> jsval" where
  "database_definition config =
     JObj (spread
       [(''capacityUnits'', JNum (Finite 1)),
        (''tier'', JStr ''serverless''),
        (''dbType'', JStr ''vector''),
        (''keyspace'',
           (if truthy (own_prop (JObj config) ''namespace'') then own_prop (JObj config) ''namespace''
            else JStr DEFAULT_NAMESPACE))]
       config)"

definition createDatabase ::
    "(string \<times> jsval) list \<Rightarrow> AdminBlockingOptions option \<Rightarrow> string \<Rightarrow> client_call list" where
  "createDatabase config options location =
     [Request Post ''/databases'' (database_definition config),
      AwaitStatus location ''ACTIVE'' [''INITIALIZING'', ''PENDING''] options 10000]"

text \<open>
  \<^verbatim>\<open>
  async dropDatabase(db: Db | string, options?: AdminBlockingOptions): Promise<void> {
    const id = typeof db === 'string' ? db : db.id;
    await this._httpClient.request({
      method: HTTP_METHODS.Post, path: `/databases/${id}/terminate`,
    });
    await this._httpClient.awaitStatus({ id }, 'TERMINATED', ['TERMINATING'], options, 10000);
  }
  \<close>
\<close>

definition dropDatabase :: "string \<Rightarrow> AdminBlockingOptions option \<Rightarrow> client_call list" where
  "dropDatabase db options =
     [Request Post (''/databases/'' @ db @ ''/terminate'') JUndefined,
      AwaitStatus db ''TERMINATED'' [''TERMINATING''] options 10000]"

text \<open>
  \<^verbatim>\<open>
  async createNamespace(namespace: string): Promise<void> {
    await this._httpClient.request({
      method: HTTP_METHODS.Post,
      path: `/databases/${this._db.id}/keyspaces/${namespace}`,
    });
  }

  async dropNamespace(namespace: string): Promise<void> {
    await this._httpClient.request({
      method: HTTP_METHODS.Delete,
      path: `/databases/${this._db.id}/keyspaces/${namespace}`,
    });
  }
  \<close>
\<close>

definition createNamespace :: "string \<Rightarrow> string \<Rightarrow> client_call list" where
  "createNamespace db namespace =
     [Request Post (''/databases/'' @ db @ ''/keyspaces/'' @ namespace) JUndefined]"

definition dropNamespace :: "string \<Rightarrow> string \<Rightarrow> client_call list" where
  "dropNamespace db namespace =
     [Request Delete (''/databases/'' @ db @ ''/keyspaces/'' @ namespace) JUndefined]"

text \<open>The poller configurations of an operation: the terminal status and the transient
  statuses of each \<open>awaitStatus\<close> it calls.\<close>

fun poller_configs :: "client_call list \<Rightarrow> (string \<times> string list) list" where
  "poller_configs [] = []"
| "poller_configs (Request m p d # cs) = poller_configs cs"
| "poller_configs (AwaitStatus db target legal opts ms # cs) = (target, legal) # poller_configs cs"


section \<open>A sample command\<close>









section \<open>Properties of the error classifier\<close>


lemma map_result_total:
  "\<forall>x\<in>set xs. \<exists>y. f x = Inr y \<Longrightarrow> map_result f xs = Inr (map (\<lambda>x. projr (f x)) xs)"
  by (induction xs) auto

lemma mk_descriptor_ok:
  "\<not> nullish e \<Longrightarrow>
   mk_descriptor e = Inr \<lparr>desc_id = own_prop e ''ID'', desc_message = own_prop e ''message''\<rparr>"
  by (simp add: mk_descriptor_def get_prop_def)

lemma extract_list:
  assumes "opt_prop (resp_data resp) ''errors'' = JArr es" and "\<forall>e\<in>set es. \<not> nullish e"
  shows "extractErrorDescriptors resp =
         Inr (map (\<lambda>e. \<lparr>desc_id = own_prop e ''ID'', desc_message = own_prop e ''message''\<rparr>) es)"
proof -
  have "map_result mk_descriptor es = Inr (map (\<lambda>x. projr (mk_descriptor x)) es)"
    using assms(2) by (intro map_result_total) (simp add: mk_descriptor_ok)
  also have "map (\<lambda>x. projr (mk_descriptor x)) es =
      map (\<lambda>e. \<lparr>desc_id = own_prop e ''ID'', desc_message = own_prop e ''message''\<rparr>) es"
    using assms(2) by (intro map_cong) (simp_all add: mk_descriptor_ok)
  finally show ?thesis using assms(1) by (simp add: extractErrorDescriptors_def)
qed

lemma find_message_ok:
  "\<forall>e\<in>set es. \<not> nullish e \<Longrightarrow>
   find_message es =
     Inr (case find (\<lambda>e. truthy (own_prop e ''message'')) es of None \<Rightarrow> JUndefined | Some e \<Rightarrow> e)"
  by (induction es) (auto simp: get_prop_def)

lemma find_map: "find P (map f xs) = map_option f (find (P \<circ> f) xs)"
  by (induction xs) auto

lemma surfaced_ok:
  assumes "opt_prop (resp_data resp) ''errors'' = JArr es" and "\<forall>e\<in>set es. \<not> nullish e"
  shows "surfaced_message resp =
     Inr (case find (\<lambda>e. truthy (own_prop e ''message'')) es of
            None \<Rightarrow> JStr ''Something went wrong''
          | Some e \<Rightarrow> own_prop e ''message'')"
proof (cases "find (\<lambda>e. truthy (own_prop e ''message'')) es")
  case None
  then show ?thesis using assms
    by (simp add: surfaced_message_def find_message_ok opt_prop_def)
next
  case (Some e)
  then have t: "truthy (own_prop e ''message'')" and "e \<in> set es"
    by (auto simp: find_Some_iff)
  then have "\<not> nullish e" using assms(2) by blast
  moreover have "\<not> nullish (own_prop e ''message'')" using t by (cases "own_prop e ''message''") auto
  ultimately show ?thesis using assms Some
    by (simp add: surfaced_message_def find_message_ok opt_prop_def)
qed



text \<open>
  Claim C5. For a response whose body holds an \<open>errors\<close> list (of entries that are not
  \<open>null\<close>, each with a string message, a \<open>null\<close> one or none), the constructed error's
  descriptor list
  is the list of \<open>{id: e.ID, message: e.message}\<close> in the order of the entries, and its
  message is the message of the first descriptor whose message is a string that is not
  empty, or \<open>Something went wrong\<close> when there is none.
\<close>

theorem C5_error_descriptors:
  assumes "opt_prop (resp_data resp) ''errors'' = JArr es"
      and "\<forall>e\<in>set es. \<not> nullish e"
      and "\<forall>e\<in>set es. nullish (own_prop e ''message'') \<or> (\<exists>s. own_prop e ''message'' = JStr s)"
  shows "\<exists>err. new_DevOpsAPIResponseError to_string resp = Inr err
           \<and> err_errors err =
               map (\<lambda>e. \<lparr>desc_id = own_prop e ''ID'', desc_message = own_prop e ''message''\<rparr>) es
           \<and> err_message err =
               (case find (\<lambda>d. case desc_message d of JStr s \<Rightarrow> s \<noteq> [] | _ \<Rightarrow> False) (err_errors err) of
                  None \<Rightarrow> ''Something went wrong''
                | Some d \<Rightarrow> (case desc_message d of JStr s \<Rightarrow> s | _ \<Rightarrow> []))
           \<and> err_status err = resp_status resp"
proof -
  let ?mk = "\<lambda>e. \<lparr>desc_id = own_prop e ''ID'', desc_message = own_prop e ''message''\<rparr>"
  let ?P = "\<lambda>e. truthy (own_prop e ''message'')"
  let ?Q = "\<lambda>d. case desc_message d of JStr s \<Rightarrow> s \<noteq> [] | _ \<Rightarrow> False"
  have PQ: "?P e = (?Q \<circ> ?mk) e" if "e \<in> set es" for e
  proof -
    have "nullish (own_prop e ''message'') \<or> (\<exists>s. own_prop e ''message'' = JStr s)"
      using assms(3) that by blast
    then show ?thesis
      by (cases "own_prop e ''message''") auto
  qed
  have "find ?P es = find (?Q \<circ> ?mk) es"
    using PQ by (intro find_cong) simp_all
  then have f: "find ?Q (map ?mk es) = map_option ?mk (find ?P es)"
    by (simp add: find_map)
  have msg: "error_message to_string
       (case find ?P es of None \<Rightarrow> JStr ''Something went wrong'' | Some e \<Rightarrow> own_prop e ''message'')
     = (case find ?Q (map ?mk es) of
          None \<Rightarrow> ''Something went wrong''
        | Some d \<Rightarrow> (case desc_message d of JStr s \<Rightarrow> s | _ \<Rightarrow> []))"
  proof (cases "find ?P es")
    case None
    then show ?thesis unfolding f by (simp add: error_message_def)
  next
    case (Some e)
    then have "e \<in> set es" and "?P e" by (auto simp: find_Some_iff)
    then obtain s where "own_prop e ''message'' = JStr s"
      using assms(3) by (cases "own_prop e ''message''") auto
    then show ?thesis unfolding f using Some by (simp add: error_message_def)
  qed
  show ?thesis
    using assms(1,2) msg
    by (simp add: new_DevOpsAPIResponseError_def surfaced_ok extract_list)
qed

text \<open>The example of the specification: \<^verbatim>\<open>{"errors":[{"ID":1,"message":"bad"},{"ID":2}]}\<close>.\<close>

theorem C5_error_descriptors_witness:
  "new_DevOpsAPIResponseError (\<lambda>v. [])
     \<lparr>resp_status = 400,
      resp_data = JObj [(''errors'',
        JArr [JObj [(''ID'', JNum (Finite 1)), (''message'', JStr ''bad'')],
              JObj [(''ID'', JNum (Finite 2))]])]\<rparr>
   = Inr \<lparr>err_message = ''bad'',
          err_errors = [\<lparr>desc_id = JNum (Finite 1), desc_message = JStr ''bad''\<rparr>,
                        \<lparr>desc_id = JNum (Finite 2), desc_message = JUndefined\<rparr>],
          err_status = 400,
          err_name = ''DevOpsAPIResponseError''\<rparr>"
proof -
  let ?es = "[JObj [(''ID'', JNum (Finite 1)), (''message'', JStr ''bad'')],
              JObj [(''ID'', JNum (Finite 2))]]"
  let ?resp = "\<lparr>resp_status = 400, resp_data = JObj [(''errors'', JArr ?es)]\<rparr>"
  have a: "opt_prop (resp_data ?resp) ''errors'' = JArr ?es"
    by (simp add: opt_prop_def)
  have b: "\<forall>e\<in>set ?es. \<not> nullish e" by simp
  have c: "\<forall>e\<in>set ?es. nullish (own_prop e ''message'') \<or> (\<exists>s. own_prop e ''message'' = JStr s)"
    by simp
  obtain err where e: "new_DevOpsAPIResponseError (\<lambda>v. []) ?resp = Inr err"
     "err_errors err = map (\<lambda>e. \<lparr>desc_id = own_prop e ''ID'', desc_message = own_prop e ''message''\<rparr>) ?es"
     "err_message err =
               (case find (\<lambda>d. case desc_message d of JStr s \<Rightarrow> s \<noteq> [] | _ \<Rightarrow> False) (err_errors err) of
                  None \<Rightarrow> ''Something went wrong''
                | Some d \<Rightarrow> (case desc_message d of JStr s \<Rightarrow> s | _ \<Rightarrow> []))"
     "err_status err = resp_status ?resp"
    using C5_error_descriptors [OF a b c, of "\<lambda>v. []"] by blast
  have n: "err_name err = ''DevOpsAPIResponseError''"
    using e(1) by (auto simp: new_DevOpsAPIResponseError_def split: sum.splits)
  have "err = \<lparr>err_message = ''bad'',
          err_errors = [\<lparr>desc_id = JNum (Finite 1), desc_message = JStr ''bad''\<rparr>,
                        \<lparr>desc_id = JNum (Finite 2), desc_message = JUndefined\<rparr>],
          err_status = 400,
          err_name = ''DevOpsAPIResponseError''\<rparr>"
    using e(2,3,4) n by (cases err) simp
  then show ?thesis using e(1) by simp
qed


section \<open>Properties of \<open>listNamespaces\<close>\<close>

text \<open>
  Claim C10. \<open>listNamespaces\<close> returns the primary keyspace first when it is truthy, then
  the truthy entries of \<open>additionalKeyspaces\<close> in their order; no \<open>undefined\<close>, \<open>null\<close>
  or empty string is returned; and a record with neither a keyspace nor additional
  keyspaces gives the empty list.
\<close>

theorem C10_listNamespaces:
  "(truthy (keyspace (db_info i)) \<longrightarrow>
      listNamespaces i =
        keyspace (db_info i) #
        filter truthy (case additionalKeyspaces (db_info i) of None \<Rightarrow> [] | Some ks \<Rightarrow> ks))
   \<and> (\<not> truthy (keyspace (db_info i)) \<longrightarrow>
      listNamespaces i =
        filter truthy (case additionalKeyspaces (db_info i) of None \<Rightarrow> [] | Some ks \<Rightarrow> ks))
   \<and> (\<forall>n\<in>set (listNamespaces i). n \<noteq> JUndefined \<and> n \<noteq> JNull \<and> n \<noteq> JStr [])
   \<and> subseq (listNamespaces i)
        (keyspace (db_info i) # (case additionalKeyspaces (db_info i) of None \<Rightarrow> [] | Some ks \<Rightarrow> ks))
   \<and> (keyspace (db_info i) = JUndefined \<and> additionalKeyspaces (db_info i) = None \<longrightarrow>
        listNamespaces i = [])"
proof -
  let ?all = "keyspace (db_info i) # (case additionalKeyspaces (db_info i) of None \<Rightarrow> [] | Some ks \<Rightarrow> ks)"
  have "subseq (filter truthy ?all) ?all"
    by (rule subseq_filter_left)
  moreover have "\<forall>n\<in>set (filter truthy ?all). n \<noteq> JUndefined \<and> n \<noteq> JNull \<and> n \<noteq> JStr []"
    by auto
  ultimately show ?thesis
    unfolding listNamespaces_def by simp
qed

text \<open>A record with an empty additional keyspace, and a record with no keyspace at all.\<close>

theorem C10_listNamespaces_witness:
  "listNamespaces
     \<lparr>db_id = ''a6a1d8d6'', db_status = ''ACTIVE'',
      db_info = \<lparr>info_name = ''astra-test-db'', cloudProvider = ''GCP'', region = ''us-east1'',
               keyspace = JStr ''default_keyspace'',
               additionalKeyspaces = Some [JStr [], JStr ''other_namespace'']\<rparr>\<rparr>
     = [JStr ''default_keyspace'', JStr ''other_namespace'']
   \<and> listNamespaces
     \<lparr>db_id = ''a6a1d8d6'', db_status = ''ACTIVE'',
      db_info = \<lparr>info_name = ''astra-test-db'', cloudProvider = ''GCP'', region = ''us-east1'',
               keyspace = JUndefined, additionalKeyspaces = None\<rparr>\<rparr> = []"
  using C10_listNamespaces [of "\<lparr>db_id = ''a6a1d8d6'', db_status = ''ACTIVE'',
      db_info = \<lparr>info_name = ''astra-test-db'', cloudProvider = ''GCP'', region = ''us-east1'',
               keyspace = JStr ''default_keyspace'',
               additionalKeyspaces = Some [JStr [], JStr ''other_namespace'']\<rparr>\<rparr>"]
        C10_listNamespaces [of "\<lparr>db_id = ''a6a1d8d6'', db_status = ''ACTIVE'',
      db_info = \<lparr>info_name = ''astra-test-db'', cloudProvider = ''GCP'', region = ''us-east1'',
               keyspace = JUndefined, additionalKeyspaces = None\<rparr>\<rparr>"]
  by simp



section \<open>Properties of the command codec\<close>











lemma hex_digit_lower: "d < 16 \<Longrightarrow> hex_digit d \<in> set hex_digits"
proof -
  assume "d < 16"
  then have "d < length hex_digits" by (simp add: hex_digits_def)
  then show ?thesis unfolding hex_digit_def by (rule nth_mem)
qed

lemma hex_of_byte_lower: "set (hex_of_byte b) \<subseteq> set hex_digits"
proof -
  have "unat b < 256" using unsigned_less [of b] by simp
  then have "unat b div 16 < 16" "unat b mod 16 < 16" by simp_all
  then have "hex_digit (unat b div 16) \<in> set hex_digits" "hex_digit (unat b mod 16) \<in> set hex_digits"
    by (simp_all add: hex_digit_lower)
  then show ?thesis by (simp add: hex_of_byte_def)
qed

lemma to_hex_lower: "set (to_hex bs) \<subseteq> set hex_digits"
  using hex_of_byte_lower by (induction bs) (auto simp: to_hex_def)

lemma length_to_hex: "length (to_hex bs) = 2 * length bs"
  by (induction bs) (simp_all add: to_hex_def hex_of_byte_def)

lemma lower_not_terminator: "c \<in> set hex_digits \<Longrightarrow> \<not> line_terminator c"
  by (auto simp: line_terminator_def hex_digits_def)

lemma replace_uuid_hex:
  assumes "length bs = 16"
  shows "replace_uuid (to_hex bs) =
     take 8 (to_hex bs) @ ''-'' @ take 4 (drop 8 (to_hex bs)) @ ''-'' @
     take 4 (drop 12 (to_hex bs)) @ ''-'' @ take 4 (drop 16 (to_hex bs)) @ ''-'' @
     drop 20 (to_hex bs)"
proof -
  let ?h = "to_hex bs"
  have len: "length ?h = 32" using assms by (simp add: length_to_hex)
  have "\<not> list_ex line_terminator (take 32 ?h)"
    using to_hex_lower [of bs] lower_not_terminator len
    by (auto simp: list_ex_iff)
  then have "replace_uuid ?h = hyphenate ?h"
    using len by (subst replace_uuid.simps) simp
  then show ?thesis using len by (simp add: hyphenate_def)
qed

text \<open>
  Claim C8. A leaf \<open>{$binary: {base64: b, subType: s}}\<close> with \<open>s\<close> equal to \<open>03\<close> or \<open>04\<close>
  whose \<open>base64\<close> decodes to 16 bytes is encoded as the 32 lowercase hexadecimal digits of
  these bytes, with hyphens after the 8th, 12th, 16th and 20th digit.
\<close>

theorem C8_uuid_encoding:
  assumes "s = ''03'' \<or> s = ''04''"
      and "Buffer_from rt (JStr b) = Inr bytes"
      and "length bytes = 16"
  shows "handleValues rt (JObj [(''$binary'', JObj [(''base64'', JStr b), (''subType'', JStr s)])]) =
           Inr (JStr (take 8 (to_hex bytes) @ ''-'' @ take 4 (drop 8 (to_hex bytes)) @ ''-'' @
                      take 4 (drop 12 (to_hex bytes)) @ ''-'' @ take 4 (drop 16 (to_hex bytes)) @ ''-'' @
                      drop 20 (to_hex bytes)))
         \<and> length (to_hex bytes) = 32
         \<and> set (to_hex bytes) \<subseteq> set ''0123456789abcdef''"
proof -
  have "handleValues rt (JObj [(''$binary'', JObj [(''base64'', JStr b), (''subType'', JStr s)])]) =
          Inr (JStr (replace_uuid (to_hex bytes)))"
    using assms(1,2) by (auto simp: handleValues_def opt_prop_def)
  moreover have "length (to_hex bytes) = 32" using assms(3) by (simp add: length_to_hex)
  moreover have "set (to_hex bytes) \<subseteq> set ''0123456789abcdef''"
    using to_hex_lower [of bytes] by (simp only: hex_digits_def)
  ultimately show ?thesis using replace_uuid_hex [OF assms(3)] by simp
qed

text \<open>The bytes \<open>00, 01, ..., 0f\<close>, whose base64 text is \<open>AAECAwQFBgcICQoLDA0ODw==\<close>.\<close>

theorem C8_uuid_encoding_witness:
  "handleValues
     \<lparr>Buffer_from = (\<lambda>v. if v = JStr ''AAECAwQFBgcICQoLDA0ODw==''
                          then Inr [0, 1, 2, 3, 4, 5, 6, 7, 8, 9, 10, 11, 12, 13, 14, 15]
                          else Inl (TypeError ''Buffer.from'')),
      Number_builtin = (\<lambda>v. NaN),
      Date_valueOf = (\<lambda>v. Inl (TypeError ''Date''))\<rparr>
     (JObj [(''$binary'', JObj [(''base64'', JStr ''AAECAwQFBgcICQoLDA0ODw==''), (''subType'', JStr ''04'')])])
   = Inr (JStr ''00010203-0405-0607-0809-0a0b0c0d0e0f'')"
  using C8_uuid_encoding [of "''04''"
     "\<lparr>Buffer_from = (\<lambda>v. if v = JStr ''AAECAwQFBgcICQoLDA0ODw==''
                          then Inr [0, 1, 2, 3, 4, 5, 6, 7, 8, 9, 10, 11, 12, 13, 14, 15]
                          else Inl (TypeError ''Buffer.from'')),
      Number_builtin = (\<lambda>v. NaN),
      Date_valueOf = (\<lambda>v. Inl (TypeError ''Date''))\<rparr>"
     "''AAECAwQFBgcICQoLDA0ODw==''" "[0, 1, 2, 3, 4, 5, 6, 7, 8, 9, 10, 11, 12, 13, 14, 15]"]
  by (simp add: to_hex_def hex_of_byte_def hex_digit_def hex_digits_def)

subsection \<open>The 64-bit wrap and the double of a wrapped integer\<close>






subsection \<open>The walk of \<open>JSON.stringify\<close> on leaves and on plain containers\<close>







subsection \<open>Tagged leaves\<close>





subsection \<open>The two passes on a supported value\<close>












subsection \<open>The round trip\<close>




subsection \<open>Large integers and decimals\<close>




section \<open>Properties of the HTTP/2 strategy\<close>


lemma new_sample:
  "new_HTTP2Strategy sample_builtins empty_world ''https://db.example/api/json/v1'' =
     Inr (sample_world, sample_strategy)"
  by (simp add: new_HTTP2Strategy_def sample_builtins_def reviveSession_def connect_def
      session_on_def empty_world_def sample_world_def sample_strategy_def fun_eq_iff)

subsection \<open>Promises settle once\<close>

lemma reject_settled: "p \<noteq> Pending \<Longrightarrow> reject e p = p"
  by (cases p) simp_all

lemma resolve_settled: "p \<noteq> Pending \<Longrightarrow> resolve r p = p"
  by (cases p) simp_all

lemma deliver_settled: "promise c \<noteq> Pending \<Longrightarrow> promise (deliver rt info c ev) = promise c"
  by (cases ev) (auto simp: reject_settled resolve_settled split: timer_state.splits option.splits)

lemma run_settled: "promise c \<noteq> Pending \<Longrightarrow> promise (run rt info c evs) = promise c"
  unfolding run_def
  by (induction evs arbitrary: c) (simp_all add: deliver_settled)

lemma run_append: "run rt info c (xs @ ys) = run rt info (run rt info c xs) ys"
  by (simp add: run_def)

lemma run_Cons: "run rt info c (x # xs) = run rt info (deliver rt info c x) xs"
  by (simp add: run_def)

lemma run_Nil: "run rt info c [] = c"
  by (simp add: run_def)

lemma deliver_req: "req (deliver rt info c ev) = req c"
  by (cases ev) (auto split: timer_state.splits option.splits)

lemma run_req: "req (run rt info c evs) = req c"
  unfolding run_def
  by (induction evs arbitrary: c) (simp_all add: deliver_req)

subsection \<open>An armed timer belongs to a pending promise\<close>

lemma clearTimeout_not_armed: "clearTimeout t \<noteq> Armed ms"
  by (cases t) simp_all

lemma deliver_armed_pending: "armed_pending c \<Longrightarrow> armed_pending (deliver rt info c ev)"
proof (cases ev)
  case TimerFires
  assume "armed_pending c"
  then show ?thesis using TimerFires
    by (auto simp: armed_pending_def split: timer_state.splits)
next
  case (OnResponse st)
  assume a: "armed_pending c"
  show ?thesis
  proof (cases "listening c ''response''")
    case True
    then show ?thesis using OnResponse clearTimeout_not_armed [of "timer c"]
      by (auto simp: armed_pending_def split: timer_state.splits)
  next
    case False
    then show ?thesis using OnResponse a by simp
  qed
next
  case (OnError e)
  assume a: "armed_pending c"
  show ?thesis
  proof (cases "listening c ''error''")
    case True
    then show ?thesis using OnError clearTimeout_not_armed [of "timer c"]
      by (auto simp: armed_pending_def split: timer_state.splits)
  next
    case False
    then show ?thesis using OnError a by simp
  qed
next
  case (OnData chunk)
  assume "armed_pending c"
  then show ?thesis using OnData
    by (auto simp: armed_pending_def split: timer_state.splits)
next
  case OnEnd
  assume a: "armed_pending c"
  show ?thesis
  proof (cases "listening c ''end''")
    case True
    then show ?thesis using OnEnd clearTimeout_not_armed [of "timer c"]
      by (auto simp: armed_pending_def split: timer_state.splits option.splits)
  next
    case False
    then show ?thesis using OnEnd a by simp
  qed
qed

lemma run_armed_pending: "armed_pending c \<Longrightarrow> armed_pending (run rt info c evs)"
  unfolding run_def
  by (induction evs arbitrary: c) (simp_all add: deliver_armed_pending)

lemma pending_armed_pending: "promise c = Pending \<Longrightarrow> armed_pending c"
  by (simp add: armed_pending_def split: timer_state.splits)

subsection \<open>What the executor leaves behind\<close>

lemma request_closed:
  "closed this \<Longrightarrow>
   request rt w this info =
     ((w, this), thrown (PlainError ''Cannot make http2 request when client is closed'') Unset None)"
  by (simp add: request_def)

lemma request_pending_shape:
  assumes "promise (snd (request rt w this info)) = Pending"
  shows "\<exists>s. snd (request rt w this info) =
           \<lparr>promise = Pending, timer = Armed (timeout info), status = 0, responseBody = [],
            req = Some s\<rparr>
         \<and> listeners s = [''response'', ''error'', ''data'', ''end'']"
  using assms
  by (auto simp: request_def thrown_def Let_def split: if_splits option.splits prod.splits sum.splits)


subsection \<open>The timer\<close>

lemma timer_fires_armed:
  assumes "timer c = Armed ms" and "armed_pending c"
  shows "promise (deliver rt info c TimerFires) = Rejected (DataAPITimeout (data info) (timeout info))"
  using assms by (simp add: armed_pending_def)

subsection \<open>A complete exchange\<close>

lemma run_data:
  assumes "listening c ''data''"
  shows "run rt info c (map OnData chunks) = c\<lparr>responseBody := responseBody c @ concat chunks\<rparr>"
  using assms
proof (induction chunks arbitrary: c)
  case Nil
  then show ?case by (simp add: run_Nil)
next
  case (Cons x xs)
  have l: "listening (c\<lparr>responseBody := responseBody c @ x\<rparr>) ''data''"
    using Cons.prems by (simp add: listening_def)
  show ?case
    using Cons.prems Cons.IH [OF l] by (simp add: run_Cons)
qed

lemma exchange:
  assumes "promise c = Pending" and "responseBody c = []"
      and "listening c ''response''" and "listening c ''data''" and "listening c ''end''"
  shows "promise (run rt info c (OnResponse st # map OnData chunks @ [OnEnd])) =
           (case JSON_parse rt (concat chunks) of
              Some d \<Rightarrow> Resolved \<lparr>api_status = (case st of None \<Rightarrow> 0 | Some n \<Rightarrow> n), api_data = d\<rparr>
            | None \<Rightarrow> Rejected (parse_failure (concat chunks)))"
proof -
  let ?c1 = "c\<lparr>timer := clearTimeout (timer c), status := (case st of None \<Rightarrow> 0 | Some n \<Rightarrow> n)\<rparr>"
  have d1: "deliver rt info c (OnResponse st) = ?c1" using assms(3) by simp
  have l1: "listening ?c1 ''data''" using assms(4) by (simp add: listening_def)
  let ?c2 = "?c1\<lparr>responseBody := responseBody ?c1 @ concat chunks\<rparr>"
  have d2: "run rt info ?c1 (map OnData chunks) = ?c2" by (rule run_data [OF l1])
  have l2: "listening ?c2 ''end''" using assms(5) by (simp add: listening_def)
  have "run rt info c (OnResponse st # map OnData chunks @ [OnEnd]) =
          run rt info (run rt info (deliver rt info c (OnResponse st)) (map OnData chunks)) [OnEnd]"
    by (simp only: run_Cons run_append)
  also have "\<dots> = run rt info (run rt info ?c1 (map OnData chunks)) [OnEnd]"
    by (simp only: d1)
  also have "\<dots> = run rt info ?c2 [OnEnd]"
    by (simp only: d2)
  also have "\<dots> = deliver rt info ?c2 OnEnd"
    by (simp only: run_Cons run_Nil)
  finally show ?thesis
    using l2 assms(1,2) by (simp split: option.splits)
qed

subsection \<open>Resolved values come from a successful parse\<close>

lemma deliver_parsed_result: "parsed_result rt c \<Longrightarrow> parsed_result rt (deliver rt info c ev)"
proof (cases "promise c = Pending")
  case False
  assume "parsed_result rt c"
  then show ?thesis using deliver_settled [OF False, of rt info ev]
    by (simp add: parsed_result_def)
next
  case True
  show ?thesis
  proof (cases ev)
    case OnEnd
    then show ?thesis using True
      by (auto simp: parsed_result_def split: option.splits)
  qed (auto simp: parsed_result_def True split: timer_state.splits)
qed

lemma run_parsed_result: "parsed_result rt c \<Longrightarrow> parsed_result rt (run rt info c evs)"
  unfolding run_def
  by (induction evs arbitrary: c) (simp_all add: deliver_parsed_result)

subsection \<open>The promise does not depend on the session\<close>





lemma sample_request:
  "request sample_builtins sample_world sample_strategy sample_info =
     ((sample_world, sample_strategy),
      \<lparr>promise = Pending, timer = Armed 30000, status = 0, responseBody = [],
       req = Some \<lparr>on_session = 0,
                   sent_headers = [('':path'', ''/api/json/v1?''), ('':method'', ''POST''),
                                   (''token'', ''AstraCS:token''), (''User-Agent'', ''astra-db-ts/1.0'')],
                   sent_body = [''{}''], ended = True,
                   listeners = [''response'', ''error'', ''data'', ''end'']\<rparr>\<rparr>)"
  by (simp add: request_def sample_builtins_def sample_world_def sample_strategy_def
      sample_info_def empty_world_def)

subsection \<open>The timer against the stream\<close>

text \<open>
  Claim C2 says that when the timer fires the promise is rejected once with the timeout
  error, that a late response does not resolve it, and that the listeners of the pending
  stream are cleared. The last part fails: the timer's callback only calls \<open>reject\<close>.
  After the timer of the sample request has fired, the four listeners are still on the
  stream, and a chunk that arrives late is still appended to \<open>responseBody\<close>.
\<close>

theorem C2_counterexample:
  "map_option listeners (req (run sample_builtins sample_info
       (snd (request sample_builtins sample_world sample_strategy sample_info)) [TimerFires]))
     = Some [''response'', ''error'', ''data'', ''end'']
   \<and> responseBody (run sample_builtins sample_info
       (snd (request sample_builtins sample_world sample_strategy sample_info))
       [TimerFires, OnResponse (Some 200), OnData ''{}'']) = ''{}''"
  by (simp add: sample_request run_def listening_def)

text \<open>
  Claim C2, amended. For every request whose executor has run to its end (the promise is
  pending) and whose timer is still armed after the events so far: when the timer fires,
  the promise is rejected with \<open>DataAPITimeout\<close> carrying the request body and the
  configured timeout; whatever happens later, a late response included, the promise stays
  rejected with that error; and the stream, its listeners included, is left as it was.
\<close>

theorem C2_timeout_rejects_once:
  assumes "promise (snd (request rt w this info)) = Pending"
      and "timer (run rt info (snd (request rt w this info)) before) = Armed ms"
  shows "promise (run rt info (snd (request rt w this info)) (before @ [TimerFires])) =
           Rejected (DataAPITimeout (data info) (timeout info))
         \<and> promise (run rt info (snd (request rt w this info)) (before @ TimerFires # later)) =
           Rejected (DataAPITimeout (data info) (timeout info))
         \<and> req (run rt info (snd (request rt w this info)) (before @ TimerFires # later)) =
           req (snd (request rt w this info))"
proof -
  let ?c0 = "snd (request rt w this info)"
  let ?c1 = "run rt info ?c0 before"
  have "armed_pending ?c1"
    using assms(1) by (intro run_armed_pending pending_armed_pending)
  then have fired: "promise (deliver rt info ?c1 TimerFires) =
      Rejected (DataAPITimeout (data info) (timeout info))"
    using assms(2) by (rule timer_fires_armed [rotated])
  then have after: "promise (run rt info (deliver rt info ?c1 TimerFires) later) =
      Rejected (DataAPITimeout (data info) (timeout info))"
    by (simp add: run_settled)
  have a: "run rt info ?c0 (before @ [TimerFires]) = deliver rt info ?c1 TimerFires"
    by (simp only: run_append run_Cons run_Nil)
  have b: "run rt info ?c0 (before @ TimerFires # later) =
      run rt info (deliver rt info ?c1 TimerFires) later"
    by (simp only: run_append run_Cons)
  have c: "req (run rt info ?c0 (before @ TimerFires # later)) = req ?c0"
    by (rule run_req)
  from fired after c show ?thesis
    unfolding a b by blast
qed

text \<open>The sample request: the timer fires first, then the whole response arrives.\<close>

theorem C2_timeout_rejects_once_witness:
  "promise (run sample_builtins sample_info
       (snd (request sample_builtins sample_world sample_strategy sample_info))
       [TimerFires, OnResponse (Some 200), OnData ''{}'', OnEnd]) =
     Rejected (DataAPITimeout (JObj [(''findOne'', JObj [])]) 30000)"
proof -
  have p: "promise (snd (request sample_builtins sample_world sample_strategy sample_info)) = Pending"
    by (simp add: sample_request)
  have t: "timer (run sample_builtins sample_info
      (snd (request sample_builtins sample_world sample_strategy sample_info)) []) = Armed 30000"
    by (simp add: sample_request run_Nil)
  show ?thesis
    using C2_timeout_rejects_once [OF p t, of "[OnResponse (Some 200), OnData ''{}'', OnEnd]"]
    by (simp add: sample_info_def)
qed

subsection \<open>Session revival\<close>




subsection \<open>After \<open>close\<close>\<close>

lemma perform_closed: "closed (snd s) \<Longrightarrow> closed (snd (perform rt s a))"
proof -
  assume c: "closed (snd s)"
  obtain w this where s: "s = (w, this)" by (cases s)
  show ?thesis
  proof (cases a)
    case (CallRequest info)
    then show ?thesis using c s by (simp add: request_closed)
  next
    case CallClose
    then show ?thesis using c s by (auto simp: close_def split: option.splits)
  next
    case (PeerCloses h)
    then show ?thesis using c s by simp
  qed
qed

lemma performs_closed: "closed (snd s) \<Longrightarrow> closed (snd (foldl (perform rt) s acts))"
  by (induction acts arbitrary: s) (simp_all add: perform_closed)

lemma close_closed: "close w this = Inr (w', this') \<Longrightarrow> closed this'"
  by (auto simp: close_def split: option.splits)

text \<open>
  Claim C6. After \<open>close()\<close>, whatever is done to the strategy afterwards (requests, more
  calls of \<open>close\<close>, the peer closing sessions), \<open>closed\<close> is true; and \<open>request\<close> then
  returns a promise that is rejected already, with the same error every time, without
  reviving the session (the world and the strategy are unchanged), without a timer and
  without a stream. No later event changes the rejection.
\<close>

theorem C6_closed_is_terminal:
  assumes "close w0 this0 = Inr (w1, this1)"
      and "foldl (perform rt) (w1, this1) acts = (w, this)"
  shows "closed this
         \<and> request rt w this info =
             ((w, this),
              \<lparr>promise = Rejected (PlainError ''Cannot make http2 request when client is closed''),
               timer = Unset, status = 0, responseBody = [], req = None\<rparr>)
         \<and> promise (run rt info (snd (request rt w this info)) evs) =
             Rejected (PlainError ''Cannot make http2 request when client is closed'')"
proof -
  have "closed (snd (w1, this1))" using close_closed [OF assms(1)] by simp
  then have "closed (snd (foldl (perform rt) (w1, this1) acts))" by (rule performs_closed)
  then have c: "closed this" using assms(2) by simp
  have r: "request rt w this info =
      ((w, this), thrown (PlainError ''Cannot make http2 request when client is closed'') Unset None)"
    using c by (rule request_closed)
  have "promise (snd (request rt w this info)) \<noteq> Pending" by (simp add: r thrown_def)
  then have "promise (run rt info (snd (request rt w this info)) evs) =
      promise (snd (request rt w this info))" by (rule run_settled)
  then show ?thesis using c r by (simp add: thrown_def)
qed

text \<open>The sample strategy is closed; a request, a peer close and a second \<open>close\<close> follow.\<close>

theorem C6_closed_is_terminal_witness:
  "promise (run sample_builtins sample_info
      (snd (request sample_builtins
         (fst (foldl (perform sample_builtins)
                (sample_world\<lparr>sessions := (sessions sample_world)
                    (0 := (sessions sample_world 0)\<lparr>s_closed := True\<rparr>)\<rparr>,
                 sample_strategy\<lparr>closed := True\<rparr>)
                [CallRequest sample_info, PeerCloses 0, CallClose]))
         (snd (foldl (perform sample_builtins)
                (sample_world\<lparr>sessions := (sessions sample_world)
                    (0 := (sessions sample_world 0)\<lparr>s_closed := True\<rparr>)\<rparr>,
                 sample_strategy\<lparr>closed := True\<rparr>)
                [CallRequest sample_info, PeerCloses 0, CallClose]))
         sample_info))
      [OnResponse (Some 200), OnData ''{}'', OnEnd]) =
   Rejected (PlainError ''Cannot make http2 request when client is closed'')"
proof -
  let ?w1 = "sample_world\<lparr>sessions := (sessions sample_world)
                    (0 := (sessions sample_world 0)\<lparr>s_closed := True\<rparr>)\<rparr>"
  let ?t1 = "sample_strategy\<lparr>closed := True\<rparr>"
  have a: "close sample_world sample_strategy = Inr (?w1, ?t1)"
    by (simp add: close_def sample_strategy_def)
  have b: "foldl (perform sample_builtins) (?w1, ?t1) [CallRequest sample_info, PeerCloses 0, CallClose] =
      (fst (foldl (perform sample_builtins) (?w1, ?t1) [CallRequest sample_info, PeerCloses 0, CallClose]),
       snd (foldl (perform sample_builtins) (?w1, ?t1) [CallRequest sample_info, PeerCloses 0, CallClose]))"
    by simp
  from C6_closed_is_terminal [OF a b, of sample_info "[OnResponse (Some 200), OnData ''{}'', OnEnd]"]
  show ?thesis by blast
qed

subsection \<open>A body that is not JSON\<close>

text \<open>
  Claim C7. When a request has been sent and the exchange completes (\<open>response\<close>, the
  chunks, \<open>end\<close>) with a body that \<open>JSON.parse\<close> rejects, the empty body included, the
  promise is rejected with an error whose message is \<open>Unable to parse response as JSON,
  got: "\<close>, the raw body and a closing quote. Under any events whatsoever, a promise that
  resolves carries data that \<open>JSON.parse\<close> returned: a failed parse never resolves it.
\<close>

theorem C7_malformed_body_rejects:
  assumes "promise (snd (request rt w this info)) = Pending"
      and "JSON_parse rt (concat chunks) = None"
  shows "promise (run rt info (snd (request rt w this info))
                    (OnResponse st # map OnData chunks @ [OnEnd])) =
           Rejected (PlainError (''Unable to parse response as JSON, got: '' @ [CHR 0x22]
                                  @ concat chunks @ [CHR 0x22]))
         \<and> sublist (concat chunks)
             (''Unable to parse response as JSON, got: '' @ [CHR 0x22] @ concat chunks @ [CHR 0x22])
         \<and> (promise (run rt info (snd (request rt w this info)) evs) = Resolved r \<longrightarrow>
              (\<exists>body. JSON_parse rt body = Some (api_data r)))"
proof -
  let ?c = "snd (request rt w this info)"
  obtain s where "?c = \<lparr>promise = Pending, timer = Armed (timeout info), status = 0,
        responseBody = [], req = Some s\<rparr>"
      and "listeners s = [''response'', ''error'', ''data'', ''end'']"
    using request_pending_shape [OF assms(1)] by auto
  then have "promise ?c = Pending" "responseBody ?c = []" "listening ?c ''response''"
      "listening ?c ''data''" "listening ?c ''end''"
    by (simp_all add: listening_def)
  from exchange [OF this, of rt info st chunks]
  have 1: "promise (run rt info ?c (OnResponse st # map OnData chunks @ [OnEnd])) =
      Rejected (parse_failure (concat chunks))"
    using assms(2) by simp
  have 2: "sublist (concat chunks)
      (''Unable to parse response as JSON, got: '' @ [CHR 0x22] @ concat chunks @ [CHR 0x22])"
    unfolding sublist_def
    by (intro exI [of _ "''Unable to parse response as JSON, got: '' @ [CHR 0x22]"]
        exI [of _ "[CHR 0x22]"]) simp
  have "parsed_result rt ?c" using assms(1) by (simp add: parsed_result_def)
  then have "parsed_result rt (run rt info ?c evs)" by (rule run_parsed_result)
  then have 3: "promise (run rt info ?c evs) = Resolved r \<longrightarrow>
      (\<exists>body. JSON_parse rt body = Some (api_data r))"
    by (auto simp: parsed_result_def)
  show ?thesis using 1 2 3 unfolding parse_failure_def by blast
qed

text \<open>An empty body and an HTML error page, each in place of JSON.\<close>

theorem C7_malformed_body_rejects_witness:
  "promise (run sample_builtins sample_info
      (snd (request sample_builtins sample_world sample_strategy sample_info))
      (OnResponse (Some 200) # map OnData [] @ [OnEnd])) =
     Rejected (PlainError (''Unable to parse response as JSON, got: '' @ [CHR 0x22, CHR 0x22]))
   \<and> promise (run sample_builtins sample_info
      (snd (request sample_builtins sample_world sample_strategy sample_info))
      (OnResponse (Some 502) # map OnData [''<html>'', ''Bad Gateway''] @ [OnEnd])) =
     Rejected (PlainError (''Unable to parse response as JSON, got: '' @ [CHR 0x22]
         @ ''<html>Bad Gateway'' @ [CHR 0x22]))"
proof -
  have p: "promise (snd (request sample_builtins sample_world sample_strategy sample_info)) = Pending"
    by (simp add: sample_request)
  have e: "JSON_parse sample_builtins (concat []) = None"
    by (simp add: sample_builtins_def)
  have h: "JSON_parse sample_builtins (concat [''<html>'', ''Bad Gateway'']) = None"
    by (simp add: sample_builtins_def)
  from C7_malformed_body_rejects [OF p e, of "Some 200"]
       C7_malformed_body_rejects [OF p h, of "Some 502"]
  show ?thesis by simp
qed

section \<open>Properties of the administrative operations\<close>

lemma database_operations_poll:
  "poller_configs (createDatabase config options location) =
     [(''ACTIVE'', [''INITIALIZING'', ''PENDING''])]
   \<and> poller_configs (dropDatabase db options) = [(''TERMINATED'', [''TERMINATING''])]"
  by (simp add: createDatabase_def dropDatabase_def)

text \<open>
  Claim C4 says that \<open>createNamespace\<close> and \<open>dropNamespace\<close> await the status \<open>ACTIVE\<close>
  with the transient status \<open>MAINTENANCE\<close>. Each of them makes one request and returns:
  neither calls the poller. (\<open>createDatabase\<close> and \<open>dropDatabase\<close> do, as the claim says:
  lemma \<open>database_operations_poll\<close>.)
\<close>

theorem C4_namespace_operations_do_not_poll:
  "createNamespace db namespace =
     [Request Post (''/databases/'' @ db @ ''/keyspaces/'' @ namespace) JUndefined]
   \<and> dropNamespace db namespace =
     [Request Delete (''/databases/'' @ db @ ''/keyspaces/'' @ namespace) JUndefined]
   \<and> poller_configs (createNamespace db namespace) = []
   \<and> poller_configs (dropNamespace db namespace) = []"
  by (simp add: createNamespace_def dropNamespace_def)

theorem C4_namespace_operations_do_not_poll_witness:
  "poller_configs (createNamespace ''a6a1d8d6'' ''other_namespace'') = []
   \<and> poller_configs (dropNamespace ''a6a1d8d6'' ''other_namespace'') = []
   \<and> poller_configs (createNamespace ''a6a1d8d6'' ''other_namespace'')
       \<noteq> [(''ACTIVE'', [''MAINTENANCE''])]"
  using C4_namespace_operations_do_not_poll [of "''a6a1d8d6''" "''other_namespace''"]
  by simp


end
